theory Spec2Isabelle
  imports Main "HOL-Library.Word" "HOL-Library.Sublist"
begin

section \<open>The harness \<open>czor/main.c\<close>\<close>

text \<open>
  The program under verification is one C translation unit:
  \<^verbatim>\<open>
  extern int32_t upples(const char* addr, const char* app,
                        const char* tmp, const char* log);

  int main() {
      int32_t res = upples(
          "127.0.0.1:3000",
          "/home/ivan/github/spin/examples/http-rust/spin.toml",
          "./TEMPYWEMPY",
          "./LOGGLYWOGGLY"
      );
      printf("UPPLES: %d\n", res);
      return res;
  }
  \<close>
  \<open>upples\<close> is defined elsewhere, so it is a parameter of the model. \<open>printf\<close> and the
  start-up code that turns the value returned by \<open>main\<close> into a call of \<open>exit\<close> belong to
  the C library; they are modelled as ISO C describes them, for the one conversion
  specification the program uses.
\<close>

subsection \<open>C values\<close>

text \<open>
  \<open>int32_t\<close> is a 32-bit two's complement integer. \<open>int\<close> is taken to be 32 bits wide
  as well, as it is on every ABI the surrounding project builds for (ILP32, LP64, LLP64).
  The conversions between the two types stay visible in the model as \<open>scast\<close>.
\<close>

type_synonym int32_t = "32 word"
type_synonym c_int = "32 word"

text \<open>
  A \<open>const char*\<close> argument is modelled by the character array it points to. For a
  string literal this array holds the characters of the literal followed by a byte of
  value zero.
\<close>

type_synonym c_str = "char list"

definition NUL :: char where
  "NUL = CHR 0x00"

definition string_literal :: "string \<Rightarrow> c_str" where
  "string_literal s = s @ [NUL]"

definition null_terminated :: "c_str \<Rightarrow> bool" where
  "null_terminated a = (NUL \<in> set a)"

text \<open>The text a callee reads from such an array: everything before the first zero byte.\<close>

definition text_of :: "c_str \<Rightarrow> string" where
  "text_of a = takeWhile (\<lambda>c. c \<noteq> NUL) a"

subsection \<open>Observable events and the process state\<close>

datatype stream = Stdout | Stderr

datatype event =
    Ev_call c_str c_str c_str c_str   \<comment> \<open>control enters \<open>upples\<close> with these four arguments\<close>
  | Ev_return int32_t                 \<comment> \<open>\<open>upples\<close> hands control back with this value\<close>
  | Ev_write stream string            \<comment> \<open>characters written to a standard stream\<close>
  | Ev_exit c_int                     \<comment> \<open>the process ends through \<open>exit\<close> with this status\<close>

text \<open>
  The state of the running process: the events this translation unit has caused so far,
  in order, and the world outside it (file system, sockets, environment, whatever
  \<open>upples\<close> reads and changes), about which nothing is assumed.
\<close>

record 'w state =
  events :: "event list"
  world :: 'w

text \<open>
  The external function: given its four arguments and the world it either returns a
  status together with the world as it left it, or never hands control back (\<open>None\<close>).
\<close>

type_synonym 'w extern = "c_str \<Rightarrow> c_str \<Rightarrow> c_str \<Rightarrow> c_str \<Rightarrow> 'w \<Rightarrow> (int32_t \<times> 'w) option"

text \<open>
  An execution that does not come back carries the reason and the events up to that
  point.
\<close>

datatype fault = No_return | Undefined_behaviour

type_synonym ('a, 'w) result = "(fault \<times> event list) + ('a \<times> 'w state)"

definition trace_of :: "('a, 'w) result \<Rightarrow> event list" where
  "trace_of r = (case r of Inl (f, tr) \<Rightarrow> tr | Inr (v, s) \<Rightarrow> events s)"

subsection \<open>The library function \<open>printf\<close>\<close>

text \<open>
  Decimal digits of a natural number, most significant first, without leading zeros;
  \<open>%d\<close> prints a minus sign in front of the digits of the magnitude of a negative value.
\<close>

definition digit_char :: "nat \<Rightarrow> char" where
  "digit_char d = ''0123456789'' ! d"

fun dec_nat :: "nat \<Rightarrow> string" where
  "dec_nat n = (if n < 10 then [digit_char n] else dec_nat (n div 10) @ [digit_char (n mod 10)])"

declare dec_nat.simps [simp del]

definition dec_int :: "int \<Rightarrow> string" where
  "dec_int i = (if i < 0 then CHR ''-'' # dec_nat (nat (- i)) else dec_nat (nat i))"

text \<open>Arguments of a variadic call after the default argument promotions.\<close>

datatype c_arg = Arg_int c_int | Arg_str c_str

text \<open>
  The formatted text: ordinary characters are copied, \<open>%d\<close> consumes an \<open>int\<close> argument,
  \<open>%%\<close> prints a percent sign. A conversion specification without a matching argument
  is undefined behaviour (\<open>None\<close>); other conversions are not modelled and yield \<open>None\<close>
  too, so nothing is proved about a format the model does not cover.
\<close>

fun format :: "string \<Rightarrow> c_arg list \<Rightarrow> string option" where
  "format [] args = Some []"
| "format (c # fmt) args =
     (if c \<noteq> CHR ''%'' then map_option ((#) c) (format fmt args)
      else (case fmt of
              [] \<Rightarrow> None
            | d # fmt' \<Rightarrow>
                if d = CHR ''d'' then
                  (case args of
                     Arg_int i # args' \<Rightarrow> map_option ((@) (dec_int (sint i))) (format fmt' args')
                   | _ \<Rightarrow> None)
                else if d = CHR ''%'' then map_option ((#) d) (format fmt' args)
                else None))"

text \<open>
  \<open>printf\<close> writes the formatted text to standard output and returns the number of
  characters transmitted. The stream is taken to accept the characters.
\<close>

definition printf :: "c_str \<Rightarrow> c_arg list \<Rightarrow> 'w state \<Rightarrow> (c_int, 'w) result" where
  "printf fmt args s =
     (case format (text_of fmt) args of
        None \<Rightarrow> Inl (Undefined_behaviour, events s)
      | Some out \<Rightarrow> Inr (of_nat (length out), s\<lparr>events := events s @ [Ev_write Stdout out]\<rparr>))"

subsection \<open>The call of the external function\<close>

definition call_upples ::
  "'w extern \<Rightarrow> c_str \<Rightarrow> c_str \<Rightarrow> c_str \<Rightarrow> c_str \<Rightarrow> 'w state \<Rightarrow> (int32_t, 'w) result" where
  "call_upples upples addr app tmp log s =
     (let tr = events s @ [Ev_call addr app tmp log] in
      case upples addr app tmp log (world s) of
        None \<Rightarrow> Inl (No_return, tr)
      | Some (r, w') \<Rightarrow> Inr (r, \<lparr>events = tr @ [Ev_return r], world = w'\<rparr>))"

subsection \<open>\<open>main\<close> and the program\<close>

definition arg_addr :: c_str where
  "arg_addr = string_literal ''127.0.0.1:3000''"

definition arg_app :: c_str where
  "arg_app = string_literal ''/home/ivan/github/spin/examples/http-rust/spin.toml''"

definition arg_tmp :: c_str where
  "arg_tmp = string_literal ''./TEMPYWEMPY''"

definition arg_log :: c_str where
  "arg_log = string_literal ''./LOGGLYWOGGLY''"

definition main :: "'w extern \<Rightarrow> 'w state \<Rightarrow> (c_int, 'w) result" where
  "main upples s =
     (case call_upples upples arg_addr arg_app arg_tmp arg_log s of
        Inl f \<Rightarrow> Inl f
      | Inr (res, s1) \<Rightarrow>
          (case printf (string_literal ''UPPLES: %d\<newline>'') [Arg_int (scast res)] s1 of
             Inl f \<Rightarrow> Inl f
           | Inr (n, s2) \<Rightarrow> Inr (scast res, s2)))"

text \<open>
  The hosted environment starts the program with an argument vector and an environment
  and calls \<open>main\<close>; \<open>main\<close> is declared without parameters, so neither reaches it.
  Returning from the initial call of \<open>main\<close> is a call of \<open>exit\<close> with the returned
  value.
\<close>

definition program :: "'w extern \<Rightarrow> string list \<Rightarrow> string list \<Rightarrow> 'w \<Rightarrow> (c_int, 'w) result" where
  "program upples argv envp w =
     (case main upples \<lparr>events = [], world = w\<rparr> of
        Inl f \<Rightarrow> Inl f
      | Inr (status, s) \<Rightarrow> Inr (status, s\<lparr>events := events s @ [Ev_exit status]\<rparr>))"

subsection \<open>Observations on an execution\<close>

text \<open>The invocations of \<open>upples\<close> recorded in a trace, each with its four arguments.\<close>

fun calls_of :: "event list \<Rightarrow> (c_str \<times> c_str \<times> c_str \<times> c_str) list" where
  "calls_of [] = []"
| "calls_of (Ev_call a b c d # tr) = (a, b, c, d) # calls_of tr"
| "calls_of (e # tr) = calls_of tr"

text \<open>The values \<open>upples\<close> returned.\<close>

fun returns_of :: "event list \<Rightarrow> int32_t list" where
  "returns_of [] = []"
| "returns_of (Ev_return r # tr) = r # returns_of tr"
| "returns_of (e # tr) = returns_of tr"

text \<open>The texts written to one standard stream, one entry per write.\<close>

fun written :: "stream \<Rightarrow> event list \<Rightarrow> string list" where
  "written st [] = []"
| "written st (Ev_write st' t # tr) = (if st' = st then t # written st tr else written st tr)"
| "written st (e # tr) = written st tr"

text \<open>The statuses the process exited with.\<close>

fun exits :: "event list \<Rightarrow> c_int list" where
  "exits [] = []"
| "exits (Ev_exit status # tr) = status # exits tr"
| "exits (e # tr) = exits tr"

text \<open>
  What an observer of the process sees: the output on both standard streams and the
  exit status.
\<close>

definition observable :: "('a, 'w) result \<Rightarrow> string list \<times> string list \<times> c_int list" where
  "observable r = (written Stdout (trace_of r), written Stderr (trace_of r), exits (trace_of r))"

text \<open>A text is one line when its only newline character is its last character.\<close>

definition one_line :: "string \<Rightarrow> bool" where
  "one_line t = (t \<noteq> [] \<and> last t = CHR ''\<newline>'' \<and> CHR ''\<newline>'' \<notin> set (butlast t))"

text \<open>The kind of an event, forgetting the values it carries.\<close>

datatype event_kind = K_call | K_return | K_write stream | K_exit

fun kind :: "event \<Rightarrow> event_kind" where
  "kind (Ev_call a b c d) = K_call"
| "kind (Ev_return r) = K_return"
| "kind (Ev_write st t) = K_write st"
| "kind (Ev_exit status) = K_exit"

text \<open>
  Reading a signed decimal numeral back, to say that the digits \<open>%d\<close> prints denote the
  value printed.
\<close>

definition digit_val :: "char \<Rightarrow> nat" where
  "digit_val c = of_char c - 48"

definition read_nat :: "string \<Rightarrow> nat" where
  "read_nat ds = foldl (\<lambda>a c. 10 * a + digit_val c) 0 ds"

definition read_int :: "string \<Rightarrow> int" where
  "read_int t =
     (case t of
        [] \<Rightarrow> 0
      | c # ds \<Rightarrow> if c = CHR ''-'' then - int (read_nat ds) else int (read_nat t))"

subsection \<open>Sample external functions\<close>

text \<open>
  Stand-ins for \<open>upples\<close>, used to run the program on concrete inputs. The first
  three live in a world that only counts how often it was entered: one reports success,
  one reports the failure status \<open>-7\<close>, one never returns.
\<close>

definition upples_ok :: "nat extern" where
  "upples_ok addr app tmp log w = Some (0, Suc w)"

definition upples_failing :: "nat extern" where
  "upples_failing addr app tmp log w = Some (- 7, Suc w)"

definition upples_hanging :: "nat extern" where
  "upples_hanging addr app tmp log w = None"

text \<open>
  A fourth one over a different world, a log of the addresses it was asked to bind; it
  reports the same failure status.
\<close>

definition upples_refusing :: "string list extern" where
  "upples_refusing addr app tmp log w = Some (- 7, text_of addr # w)"

section \<open>Properties\<close>

subsection \<open>Decimal numerals\<close>

lemma digit_cases:
  "d < 10 \<Longrightarrow> d = 0 \<or> d = 1 \<or> d = 2 \<or> d = 3 \<or> d = 4 \<or> d = 5 \<or> d = 6 \<or> d = 7 \<or> d = 8 \<or> d = (9::nat)"
  by arith

lemma digit_char_in: "d < 10 \<Longrightarrow> digit_char d \<in> set ''0123456789''"
  using digit_cases [of d] by (auto simp: digit_char_def)

lemma digit_val_digit_char: "d < 10 \<Longrightarrow> digit_val (digit_char d) = d"
  using digit_cases [of d] by (auto simp: digit_char_def digit_val_def)

lemma dec_nat_set: "set (dec_nat n) \<subseteq> set ''0123456789''"
proof (induction n rule: dec_nat.induct)
  case (1 n)
  show ?case
  proof (cases "n < 10")
    case True
    then show ?thesis
      using digit_char_in [of n] by (simp add: dec_nat.simps [of n])
  next
    case False
    have "n mod 10 < 10" by simp
    then have "digit_char (n mod 10) \<in> set ''0123456789''"
      by (rule digit_char_in)
    with False 1 show ?thesis
      by (simp add: dec_nat.simps [of n])
  qed
qed

lemma dec_nat_not_Nil: "dec_nat n \<noteq> []"
  by (simp add: dec_nat.simps [of n])

lemma read_nat_snoc: "read_nat (ds @ [c]) = 10 * read_nat ds + digit_val c"
  by (simp add: read_nat_def)

lemma read_nat_dec_nat: "read_nat (dec_nat n) = n"
proof (induction n rule: dec_nat.induct)
  case (1 n)
  show ?case
  proof (cases "n < 10")
    case True
    then show ?thesis
      by (simp add: dec_nat.simps [of n] read_nat_def digit_val_digit_char)
  next
    case False
    with 1 have "read_nat (dec_nat (n div 10)) = n div 10" by simp
    with False show ?thesis
      by (simp add: dec_nat.simps [of n] read_nat_snoc digit_val_digit_char)
  qed
qed

lemma dec_nat_no_minus: "CHR ''-'' \<notin> set (dec_nat n)"
  using dec_nat_set [of n] by auto

lemma dec_nat_no_newline: "CHR ''\<newline>'' \<notin> set (dec_nat n)"
  using dec_nat_set [of n] by auto

lemma read_int_dec_int: "read_int (dec_int i) = i"
proof (cases "i < 0")
  case True
  then show ?thesis
    by (simp add: dec_int_def read_int_def read_nat_dec_nat)
next
  case False
  obtain c ds where cds: "dec_nat (nat i) = c # ds"
    using dec_nat_not_Nil [of "nat i"] by (cases "dec_nat (nat i)") auto
  then have "c \<noteq> CHR ''-''"
    using dec_nat_no_minus [of "nat i"] by auto
  moreover have "read_nat (c # ds) = nat i"
    using read_nat_dec_nat [of "nat i"] cds by simp
  ultimately show ?thesis
    using False cds by (simp add: dec_int_def read_int_def)
qed

lemma dec_int_no_newline: "CHR ''\<newline>'' \<notin> set (dec_int i)"
  using dec_nat_no_newline by (simp add: dec_int_def)

lemma dec_int_not_Nil: "dec_int i \<noteq> []"
  by (simp add: dec_int_def dec_nat_not_Nil)

subsection \<open>String literals\<close>

lemma text_of_literal: "NUL \<notin> set t \<Longrightarrow> text_of (string_literal t) = t"
  by (induction t) (auto simp: text_of_def string_literal_def)

lemma literal_null_terminated: "null_terminated (string_literal t)"
  by (simp add: null_terminated_def string_literal_def)

lemma text_of_arg_addr: "text_of arg_addr = ''127.0.0.1:3000''"
  by (simp add: arg_addr_def text_of_literal NUL_def)

lemma text_of_arg_app:
  "text_of arg_app = ''/home/ivan/github/spin/examples/http-rust/spin.toml''"
  by (simp add: arg_app_def text_of_literal NUL_def)

lemma text_of_arg_tmp: "text_of arg_tmp = ''./TEMPYWEMPY''"
  by (simp add: arg_tmp_def text_of_literal NUL_def)

lemma text_of_arg_log: "text_of arg_log = ''./LOGGLYWOGGLY''"
  by (simp add: arg_log_def text_of_literal NUL_def)

lemma arg_addr_array: "text_of arg_addr @ [NUL] = arg_addr"
  unfolding text_of_arg_addr by (simp add: arg_addr_def string_literal_def)

lemma arg_app_array: "text_of arg_app @ [NUL] = arg_app"
  unfolding text_of_arg_app by (simp add: arg_app_def string_literal_def)

lemma arg_tmp_array: "text_of arg_tmp @ [NUL] = arg_tmp"
  unfolding text_of_arg_tmp by (simp add: arg_tmp_def string_literal_def)

lemma arg_log_array: "text_of arg_log @ [NUL] = arg_log"
  unfolding text_of_arg_log by (simp add: arg_log_def string_literal_def)

subsection \<open>One run of \<open>main\<close>, step by step\<close>

lemma printf_line:
  "printf (string_literal ''UPPLES: %d\<newline>'') [Arg_int i] s =
     Inr (of_nat (length (''UPPLES: '' @ dec_int (sint i) @ ''\<newline>'')),
          s\<lparr>events := events s @ [Ev_write Stdout (''UPPLES: '' @ dec_int (sint i) @ ''\<newline>'')]\<rparr>)"
  by (simp add: printf_def text_of_def string_literal_def NUL_def)

lemma main_returns:
  assumes "upples arg_addr arg_app arg_tmp arg_log (world s) = Some (R, w')"
  shows "main upples s =
           Inr (R, \<lparr>events = events s @
                      [Ev_call arg_addr arg_app arg_tmp arg_log, Ev_return R,
                       Ev_write Stdout (''UPPLES: '' @ dec_int (sint R) @ ''\<newline>'')],
                    world = w'\<rparr>)"
  using assms by (simp add: main_def call_upples_def printf_line)

lemma main_no_return:
  assumes "upples arg_addr arg_app arg_tmp arg_log (world s) = None"
  shows "main upples s = Inl (No_return, events s @ [Ev_call arg_addr arg_app arg_tmp arg_log])"
  using assms by (simp add: main_def call_upples_def)

lemma program_returns:
  assumes "upples arg_addr arg_app arg_tmp arg_log w = Some (R, w')"
  shows "program upples argv envp w =
           Inr (R, \<lparr>events =
                      [Ev_call arg_addr arg_app arg_tmp arg_log, Ev_return R,
                       Ev_write Stdout (''UPPLES: '' @ dec_int (sint R) @ ''\<newline>''),
                       Ev_exit R],
                    world = w'\<rparr>)"
  using assms by (simp add: program_def main_returns)

lemma program_no_return:
  assumes "upples arg_addr arg_app arg_tmp arg_log w = None"
  shows "program upples argv envp w = Inl (No_return, [Ev_call arg_addr arg_app arg_tmp arg_log])"
  using assms by (simp add: program_def main_no_return)

lemma one_line_result: "one_line (''UPPLES: '' @ dec_int i @ ''\<newline>'')"
  using dec_int_no_newline [of i] by (simp add: one_line_def butlast_append)

subsection \<open>The claims\<close>

subsubsection \<open>Exit status\<close>

text \<open>
  Claim C1. Whatever value \<open>R\<close> the external function returns, \<open>main\<close> returns that
  very value (the conversion from \<open>int32_t\<close> to \<open>int\<close> changes neither the bits nor the
  signed value), and the process exits once, with \<open>R\<close> as the status handed to \<open>exit\<close>.
  What the host does with that status afterwards (POSIX hands a waiting parent its low
  eight bits only) lies behind \<open>exit\<close> and is not part of the program.
\<close>

theorem exit_status_is_return_value:
  assumes "upples arg_addr arg_app arg_tmp arg_log w = Some (R, w')"
  shows "\<exists>status s'. main upples \<lparr>events = [], world = w\<rparr> = Inr (status, s') \<and>
           sint status = sint R \<and> status = R \<and>
           exits (trace_of (program upples argv envp w)) = [status]"
  using assms by (simp add: main_returns program_returns trace_of_def)

theorem exit_status_is_return_value_witness:
  "upples_failing arg_addr arg_app arg_tmp arg_log 0 = Some (- 7, 1) \<and>
   (\<exists>status s'. main upples_failing \<lparr>events = [], world = 0\<rparr> = Inr (status, s') \<and>
      sint status = - 7 \<and> status = - 7 \<and>
      exits (trace_of (program upples_failing [''czor''] [] 0)) = [status])"
proof -
  have h: "upples_failing arg_addr arg_app arg_tmp arg_log 0 = Some (- 7, 1)"
    by (simp add: upples_failing_def)
  from exit_status_is_return_value
    [where upples = upples_failing and w = 0 and R = "- 7" and w' = 1
       and argv = "[''czor'']" and envp = "[]", OF h] h
  show ?thesis
    by simp
qed

subsubsection \<open>Output\<close>

text \<open>
  Claim C2. When the external function returns \<open>R\<close>, the program performs exactly one
  write to standard output; the text written is one line (its only newline is its last
  character) and contains the decimal numeral of \<open>R\<close>; nothing is written to standard
  error.
\<close>

theorem prints_exactly_one_line:
  assumes "upples arg_addr arg_app arg_tmp arg_log w = Some (R, w')"
  shows "\<exists>line. written Stdout (trace_of (program upples argv envp w)) = [line] \<and>
           one_line line \<and> sublist (dec_int (sint R)) line \<and>
           written Stderr (trace_of (program upples argv envp w)) = []"
proof -
  let ?line = "''UPPLES: '' @ dec_int (sint R) @ ''\<newline>''"
  have "written Stdout (trace_of (program upples argv envp w)) = [?line]"
    and "written Stderr (trace_of (program upples argv envp w)) = []"
    using assms by (simp_all add: program_returns trace_of_def)
  moreover have "one_line ?line"
    by (rule one_line_result)
  moreover have "sublist (dec_int (sint R)) ?line"
    by (rule sublist_appendI)
  ultimately show ?thesis
    by blast
qed

theorem prints_exactly_one_line_witness:
  "upples_failing arg_addr arg_app arg_tmp arg_log 3 = Some (- 7, 4) \<and>
   (\<exists>line. written Stdout (trace_of (program upples_failing [] [] 3)) = [line] \<and>
      one_line line \<and> sublist ''-7'' line \<and>
      written Stderr (trace_of (program upples_failing [] [] 3)) = [])"
proof -
  have h: "upples_failing arg_addr arg_app arg_tmp arg_log 3 = Some (- 7, 4)"
    by (simp add: upples_failing_def)
  have d: "dec_int (sint (- 7 :: int32_t)) = ''-7''"
    by (simp add: dec_int_def dec_nat.simps digit_char_def)
  from prints_exactly_one_line
    [where upples = upples_failing and w = 3 and R = "- 7" and w' = 4
       and argv = "[]" and envp = "[]", OF h] h d
  show ?thesis
    by simp
qed

subsubsection \<open>The call\<close>

text \<open>
  Claim C3. In every execution, whether the external function returns zero, returns
  something else or never returns, the trace holds exactly one invocation of it, with
  the four literals of the source as arguments, in the order of the source. The callee
  reads from them the texts \<^verbatim>\<open>127.0.0.1:3000\<close>,
  \<^verbatim>\<open>/home/ivan/github/spin/examples/http-rust/spin.toml\<close>,
  \<^verbatim>\<open>./TEMPYWEMPY\<close> and \<^verbatim>\<open>./LOGGLYWOGGLY\<close>.
\<close>

theorem upples_called_exactly_once:
  "calls_of (trace_of (program upples argv envp w)) = [(arg_addr, arg_app, arg_tmp, arg_log)] \<and>
   text_of arg_addr = ''127.0.0.1:3000'' \<and>
   text_of arg_app = ''/home/ivan/github/spin/examples/http-rust/spin.toml'' \<and>
   text_of arg_tmp = ''./TEMPYWEMPY'' \<and>
   text_of arg_log = ''./LOGGLYWOGGLY''"
proof (cases "upples arg_addr arg_app arg_tmp arg_log w")
  case None
  then show ?thesis
    by (simp add: program_no_return trace_of_def text_of_arg_addr text_of_arg_app
          text_of_arg_tmp text_of_arg_log)
next
  case (Some a)
  then obtain R w' where "upples arg_addr arg_app arg_tmp arg_log w = Some (R, w')"
    by (cases a) simp
  then show ?thesis
    by (simp add: program_returns trace_of_def text_of_arg_addr text_of_arg_app
          text_of_arg_tmp text_of_arg_log)
qed

theorem upples_called_exactly_once_witness:
  "upples_hanging arg_addr arg_app arg_tmp arg_log 0 = None \<and>
   program upples_hanging [] [] 0 = Inl (No_return, [Ev_call arg_addr arg_app arg_tmp arg_log]) \<and>
   calls_of (trace_of (program upples_hanging [] [] 0)) =
     [(arg_addr, arg_app, arg_tmp, arg_log)] \<and>
   text_of arg_addr = ''127.0.0.1:3000'' \<and>
   text_of arg_app = ''/home/ivan/github/spin/examples/http-rust/spin.toml'' \<and>
   text_of arg_tmp = ''./TEMPYWEMPY'' \<and>
   text_of arg_log = ''./LOGGLYWOGGLY''"
proof -
  have h: "upples_hanging arg_addr arg_app arg_tmp arg_log 0 = None"
    by (simp add: upples_hanging_def)
  have p: "program upples_hanging [] [] 0 =
             Inl (No_return, [Ev_call arg_addr arg_app arg_tmp arg_log])"
    by (simp add: program_def main_def call_upples_def upples_hanging_def)
  from upples_called_exactly_once
    [where upples = upples_hanging and w = 0 and argv = "[]" and envp = "[]"] h p
  show ?thesis
    by blast
qed

subsubsection \<open>Nonzero statuses\<close>

text \<open>
  Claim C4. A run in which the external function returns a nonzero \<open>R\<close> goes through
  the same kinds of events, in the same order, as a run in which it returns zero. \<open>R\<close>
  shows up as the printed integer and as the exit status; the run ends by the ordinary
  return from \<open>main\<close>, and nothing is written to standard error.
\<close>

theorem nonzero_status_takes_same_path:
  assumes "upples arg_addr arg_app arg_tmp arg_log w = Some (R, w')"
    and "R \<noteq> 0"
    and "upples_zero arg_addr arg_app arg_tmp arg_log w_zero = Some (0, w_zero')"
  shows "map kind (trace_of (program upples argv envp w)) =
           map kind (trace_of (program upples_zero argv_zero envp_zero w_zero)) \<and>
         written Stdout (trace_of (program upples argv envp w)) =
           [''UPPLES: '' @ dec_int (sint R) @ ''\<newline>''] \<and>
         written Stderr (trace_of (program upples argv envp w)) = [] \<and>
         exits (trace_of (program upples argv envp w)) = [R] \<and>
         (\<exists>s'. program upples argv envp w = Inr (R, s'))"
  using assms(1,3) by (simp add: program_returns trace_of_def)

theorem nonzero_status_takes_same_path_witness:
  "upples_failing arg_addr arg_app arg_tmp arg_log 0 = Some (- 7, 1) \<and>
   (- 7 :: int32_t) \<noteq> 0 \<and>
   upples_ok arg_addr arg_app arg_tmp arg_log 0 = Some (0, 1) \<and>
   map kind (trace_of (program upples_failing [] [] 0)) =
     map kind (trace_of (program upples_ok [] [] 0)) \<and>
   written Stdout (trace_of (program upples_failing [] [] 0)) = [''UPPLES: -7\<newline>''] \<and>
   written Stderr (trace_of (program upples_failing [] [] 0)) = [] \<and>
   exits (trace_of (program upples_failing [] [] 0)) = [- 7] \<and>
   (\<exists>s'. program upples_failing [] [] 0 = Inr (- 7, s'))"
proof -
  have h1: "upples_failing arg_addr arg_app arg_tmp arg_log 0 = Some (- 7, 1)"
    by (simp add: upples_failing_def)
  have h2: "(- 7 :: int32_t) \<noteq> 0"
    by simp
  have h3: "upples_ok arg_addr arg_app arg_tmp arg_log 0 = Some (0, 1)"
    by (simp add: upples_ok_def)
  have d: "dec_int (sint (- 7 :: int32_t)) = ''-7''"
    by (simp add: dec_int_def dec_nat.simps digit_char_def)
  from nonzero_status_takes_same_path
    [where upples = upples_failing and w = 0 and R = "- 7" and w' = 1
       and upples_zero = upples_ok and w_zero = 0 and w_zero' = 1
       and argv = "[]" and envp = "[]" and argv_zero = "[]" and envp_zero = "[]",
     OF h1 h2 h3] h1 h2 h3 d
  show ?thesis
    by simp
qed

subsubsection \<open>The boundary to the external function\<close>

text \<open>
  Claim C5. At the boundary, each of the four actual arguments is a character array that
  is null-terminated and consists of exactly its text followed by the terminating zero
  byte; the value that comes back is the one \<open>main\<close> receives, and it lies in the range of
  a signed 32-bit integer.
\<close>

theorem boundary_matches_contract:
  assumes "upples arg_addr arg_app arg_tmp arg_log w = Some (R, w')"
  shows "calls_of (trace_of (program upples argv envp w)) = [(arg_addr, arg_app, arg_tmp, arg_log)] \<and>
         null_terminated arg_addr \<and> text_of arg_addr @ [NUL] = arg_addr \<and>
         null_terminated arg_app \<and> text_of arg_app @ [NUL] = arg_app \<and>
         null_terminated arg_tmp \<and> text_of arg_tmp @ [NUL] = arg_tmp \<and>
         null_terminated arg_log \<and> text_of arg_log @ [NUL] = arg_log \<and>
         returns_of (trace_of (program upples argv envp w)) = [R] \<and>
         - (2 ^ 31) \<le> sint R \<and> sint R < 2 ^ 31"
proof -
  have "calls_of (trace_of (program upples argv envp w)) = [(arg_addr, arg_app, arg_tmp, arg_log)]"
    and "returns_of (trace_of (program upples argv envp w)) = [R]"
    using assms by (simp_all add: program_returns trace_of_def)
  moreover have "null_terminated arg_addr" "null_terminated arg_app"
    "null_terminated arg_tmp" "null_terminated arg_log"
    by (simp_all add: arg_addr_def arg_app_def arg_tmp_def arg_log_def literal_null_terminated)
  moreover have "text_of arg_addr @ [NUL] = arg_addr" "text_of arg_app @ [NUL] = arg_app"
    "text_of arg_tmp @ [NUL] = arg_tmp" "text_of arg_log @ [NUL] = arg_log"
    by (rule arg_addr_array arg_app_array arg_tmp_array arg_log_array)+
  moreover have "- (2 ^ 31) \<le> sint R" "sint R < 2 ^ 31"
    using sint_ge [of R] sint_lt [of R] by simp_all
  ultimately show ?thesis
    by simp
qed

theorem boundary_matches_contract_witness:
  "upples_failing arg_addr arg_app arg_tmp arg_log 0 = Some (- 7, 1) \<and>
   calls_of (trace_of (program upples_failing [] [] 0)) = [(arg_addr, arg_app, arg_tmp, arg_log)] \<and>
   null_terminated arg_addr \<and> text_of arg_addr @ [NUL] = arg_addr \<and>
   null_terminated arg_app \<and> text_of arg_app @ [NUL] = arg_app \<and>
   null_terminated arg_tmp \<and> text_of arg_tmp @ [NUL] = arg_tmp \<and>
   null_terminated arg_log \<and> text_of arg_log @ [NUL] = arg_log \<and>
   returns_of (trace_of (program upples_failing [] [] 0)) = [- 7] \<and>
   - (2 ^ 31) \<le> sint (- 7 :: int32_t) \<and> sint (- 7 :: int32_t) < 2 ^ 31"
proof -
  have h: "upples_failing arg_addr arg_app arg_tmp arg_log 0 = Some (- 7, 1)"
    by (simp add: upples_failing_def)
  from boundary_matches_contract
    [where upples = upples_failing and w = 0 and R = "- 7" and w' = 1
       and argv = "[]" and envp = "[]", OF h] h
  show ?thesis
    by blast
qed

subsubsection \<open>Order of the steps\<close>

text \<open>
  Claim C6. In a run in which the external function returns \<open>R\<close>, the events are, in
  this order and with nothing in between: the call, its return with \<open>R\<close>, the write of
  the result line to standard output, the exit with status \<open>R\<close>.
\<close>

theorem call_then_print_then_exit:
  assumes "upples arg_addr arg_app arg_tmp arg_log w = Some (R, w')"
  shows "\<exists>line. trace_of (program upples argv envp w) =
           [Ev_call arg_addr arg_app arg_tmp arg_log, Ev_return R, Ev_write Stdout line, Ev_exit R]"
  using assms by (simp add: program_returns trace_of_def)

theorem call_then_print_then_exit_witness:
  "upples_ok arg_addr arg_app arg_tmp arg_log 0 = Some (0, 1) \<and>
   (\<exists>line. trace_of (program upples_ok [] [] 0) =
      [Ev_call arg_addr arg_app arg_tmp arg_log, Ev_return 0, Ev_write Stdout line, Ev_exit 0])"
proof -
  have h: "upples_ok arg_addr arg_app arg_tmp arg_log 0 = Some (0, 1)"
    by (simp add: upples_ok_def)
  from call_then_print_then_exit
    [where upples = upples_ok and w = 0 and R = 0 and w' = 1 and argv = "[]" and envp = "[]", OF h] h
  show ?thesis
    by blast
qed

subsubsection \<open>Determinism\<close>

text \<open>
  Claim C7. Take two runs, with possibly different external functions, different worlds
  (of possibly different types), different argument vectors and different environments.
  If the external function returns the same \<open>R\<close> in both, then the output on standard
  output, the output on standard error and the exit status are the same in both.
\<close>

theorem observable_determined_by_status:
  assumes "upples arg_addr arg_app arg_tmp arg_log w = Some (R, w')"
    and "upples_b arg_addr arg_app arg_tmp arg_log w_b = Some (R, w_b')"
  shows "observable (program upples argv envp w) = observable (program upples_b argv_b envp_b w_b)"
  using assms by (simp add: observable_def program_returns trace_of_def)

theorem observable_determined_by_status_witness:
  "upples_failing arg_addr arg_app arg_tmp arg_log 0 = Some (- 7, 1) \<and>
   upples_refusing arg_addr arg_app arg_tmp arg_log [] = Some (- 7, [''127.0.0.1:3000'']) \<and>
   observable (program upples_failing [''czor''] [''HOME=/root''] 0) =
     observable (program upples_refusing [''czor'', ''--verbose''] [] [])"
proof -
  have h1: "upples_failing arg_addr arg_app arg_tmp arg_log 0 = Some (- 7, 1)"
    by (simp add: upples_failing_def)
  have h2: "upples_refusing arg_addr arg_app arg_tmp arg_log [] = Some (- 7, [''127.0.0.1:3000''])"
    by (simp add: upples_refusing_def text_of_arg_addr)
  from observable_determined_by_status
    [where upples = upples_failing and w = 0 and R = "- 7" and w' = 1
       and upples_b = upples_refusing and w_b = "[]" and w_b' = "[''127.0.0.1:3000'']"
       and argv = "[''czor'']" and envp = "[''HOME=/root'']"
       and argv_b = "[''czor'', ''--verbose'']" and envp_b = "[]", OF h1 h2] h1 h2
  show ?thesis
    by blast
qed

subsubsection \<open>The exact text\<close>

text \<open>
  Claim C8. When the external function returns \<open>R\<close>, the text written to standard output
  is exactly \<^verbatim>\<open>UPPLES: \<close>, then the signed decimal numeral of \<open>R\<close>, then a
  newline; read back as a decimal numeral, the digits printed denote the signed value of
  \<open>R\<close>.
\<close>

theorem printed_line_exact:
  assumes "upples arg_addr arg_app arg_tmp arg_log w = Some (R, w')"
  shows "written Stdout (trace_of (program upples argv envp w)) =
           [''UPPLES: '' @ dec_int (sint R) @ ''\<newline>''] \<and>
         read_int (dec_int (sint R)) = sint R"
  using assms by (simp add: program_returns trace_of_def read_int_dec_int)

theorem printed_line_exact_witness:
  "upples_failing arg_addr arg_app arg_tmp arg_log 0 = Some (- 7, 1) \<and>
   written Stdout (trace_of (program upples_failing [] [] 0)) = [''UPPLES: -7\<newline>''] \<and>
   read_int ''-7'' = - 7"
proof -
  have h: "upples_failing arg_addr arg_app arg_tmp arg_log 0 = Some (- 7, 1)"
    by (simp add: upples_failing_def)
  have d: "dec_int (sint (- 7 :: int32_t)) = ''-7''"
    by (simp add: dec_int_def dec_nat.simps digit_char_def)
  from printed_line_exact
    [where upples = upples_failing and w = 0 and R = "- 7" and w' = 1
       and argv = "[]" and envp = "[]", OF h] h d
  show ?thesis
    by simp
qed

subsubsection \<open>Termination\<close>

text \<open>
  Claim C9. If the call of the external function returns, the program terminates: it
  reaches \<open>exit\<close>, and does so exactly once. (Every function of the model is total; the
  only way for the program not to come back is for \<open>upples\<close> not to.)
\<close>

theorem program_terminates_when_upples_returns:
  assumes "upples arg_addr arg_app arg_tmp arg_log w = Some (R, w')"
  shows "\<exists>status s'. program upples argv envp w = Inr (status, s') \<and>
           exits (events s') = [status]"
  using assms by (simp add: program_returns)

theorem program_terminates_when_upples_returns_witness:
  "upples_ok arg_addr arg_app arg_tmp arg_log 5 = Some (0, 6) \<and>
   (\<exists>status s'. program upples_ok [] [] 5 = Inr (status, s') \<and> exits (events s') = [status])"
proof -
  have h: "upples_ok arg_addr arg_app arg_tmp arg_log 5 = Some (0, 6)"
    by (simp add: upples_ok_def)
  from program_terminates_when_upples_returns
    [where upples = upples_ok and w = 5 and R = 0 and w' = 6 and argv = "[]" and envp = "[]", OF h] h
  show ?thesis
    by blast
qed

subsubsection \<open>Frame\<close>

text \<open>
  Claim C10. Started in any state in which the external function returns, \<open>main\<close> ends
  in the state the process was in when the external function returned, the world
  included, with one event added: a write to standard output. It adds no write to standard
  error and changes nothing of the world itself.
\<close>

theorem main_only_writes_stdout:
  assumes "upples arg_addr arg_app arg_tmp arg_log (world s) = Some (R, w')"
  shows "\<exists>s1 status line.
           call_upples upples arg_addr arg_app arg_tmp arg_log s = Inr (R, s1) \<and>
           world s1 = w' \<and>
           main upples s = Inr (status, s1\<lparr>events := events s1 @ [Ev_write Stdout line]\<rparr>)"
  using assms by (simp add: main_returns call_upples_def)

theorem main_only_writes_stdout_witness:
  "upples_failing arg_addr arg_app arg_tmp arg_log (world \<lparr>events = [], world = 2\<rparr>) = Some (- 7, 3) \<and>
   (\<exists>s1 status line.
      call_upples upples_failing arg_addr arg_app arg_tmp arg_log \<lparr>events = [], world = 2\<rparr> =
        Inr (- 7, s1) \<and>
      world s1 = 3 \<and>
      main upples_failing \<lparr>events = [], world = 2\<rparr> =
        Inr (status, s1\<lparr>events := events s1 @ [Ev_write Stdout line]\<rparr>))"
proof -
  have h: "upples_failing arg_addr arg_app arg_tmp arg_log (world \<lparr>events = [], world = 2\<rparr>) =
             Some (- 7, 3)"
    by (simp add: upples_failing_def)
  from main_only_writes_stdout
    [where upples = upples_failing and s = "\<lparr>events = [], world = 2\<rparr>" and R = "- 7" and w' = 3,
     OF h] h
  show ?thesis
    by blast
qed

end
